theory Spec2Isabelle
  imports Complex_Main "HOL-Library.Sublist"
begin

section \<open>The worker's data\<close>

text \<open>
  The worker (\<^verbatim>\<open>src/index.js\<close>) is one request handler. Everything it touches is
  request-scoped: the inbound \<^verbatim>\<open>Request\<close>, the environment \<^verbatim>\<open>env\<close>, the parsed webhook
  body, and the \<^verbatim>\<open>Response\<close> of the outbound call. Strings are \<open>string\<close>; a value that
  may be \<^verbatim>\<open>undefined\<close> is an \<open>option\<close> with \<open>None\<close> for \<^verbatim>\<open>undefined\<close>.

  A \<open>char\<close> is a byte where JavaScript has a 16-bit code unit. The program compares,
  searches, splits and concatenates strings, which does not depend on the width; the one
  place that counts characters is the zone pattern, and every character it accepts is
  ASCII.
\<close>

subsection \<open>Constants\<close>

definition HTTP_OK :: nat where "HTTP_OK = 200"
definition HTTP_BAD_REQUEST :: nat where "HTTP_BAD_REQUEST = 400"
definition HTTP_METHOD_NOT_ALLOWED :: nat where "HTTP_METHOD_NOT_ALLOWED = 405"
definition HTTP_INTERNAL_ERROR :: nat where "HTTP_INTERNAL_ERROR = 500"

definition ERROR_METHOD_NOT_ALLOWED :: string where
  "ERROR_METHOD_NOT_ALLOWED = ''Method not allowed. Only POST requests are accepted.''"
definition ERROR_INVALID_CONTENT_TYPE :: string where
  "ERROR_INVALID_CONTENT_TYPE = ''Invalid content type. Only application/json is accepted.''"
definition ERROR_MISSING_ZONE_ID :: string where
  "ERROR_MISSING_ZONE_ID = ''Missing zone ID in URL path.''"
definition ERROR_MISSING_ACTION :: string where
  "ERROR_MISSING_ACTION = ''Missing action in URL path.''"
definition ERROR_INVALID_ACTION :: string where
  "ERROR_INVALID_ACTION = ''Invalid action. Allowed actions: postPublished, postUpdated.''"
definition ERROR_MISSING_API_TOKEN :: string where
  "ERROR_MISSING_API_TOKEN = ''Missing Cloudflare API token in environment.''"
definition ERROR_INVALID_WEBHOOK :: string where
  "ERROR_INVALID_WEBHOOK = ''Invalid webhook payload structure.''"
definition ERROR_INVALID_ZONE_FORMAT :: string where
  "ERROR_INVALID_ZONE_FORMAT = ''Invalid zone ID format.''"

definition ACTION_POST_PUBLISHED :: string where "ACTION_POST_PUBLISHED = ''postPublished''"
definition ACTION_POST_UPDATED :: string where "ACTION_POST_UPDATED = ''postUpdated''"
definition VALID_ACTIONS :: "string list" where
  "VALID_ACTIONS = [ACTION_POST_PUBLISHED, ACTION_POST_UPDATED]"

subsection \<open>Exceptions, responses, JSON values\<close>

text \<open>
  The source has no \<^verbatim>\<open>throw\<close> of its own; what can fail are the platform calls it makes.
  A failed call is a value: \<open>Inl\<close> of the error, in a result \<open>js_error + 'a\<close>.
\<close>

datatype js_error = TypeError | RangeError

text \<open>
  \<^verbatim>\<open>Response\<close> is one class, used for what the handler returns and for what
  \<^verbatim>\<open>fetch\<close> resolves to. \<open>body\<close> is what \<^verbatim>\<open>response.text()\<close> yields: the text, or the
  error it rejects with.
\<close>

record response =
  ok :: bool
  status :: nat
  statusText :: string
  body :: "js_error + string"

text \<open>
  \<^verbatim>\<open>new Response(b, { status: st })\<close>. A response built this way has an empty status
  text and \<open>ok\<close> exactly for the statuses 200 to 299.
\<close>

definition Response :: "string \<Rightarrow> nat \<Rightarrow> response" where
  "Response b st =
     \<lparr>ok = (200 \<le> st \<and> st \<le> 299), status = st, statusText = [], body = Inr b\<rparr>"

text \<open>
  The constructor refuses a status outside 200 to 599 (\<^verbatim>\<open>RangeError\<close>) and a body
  together with a null-body status (\<^verbatim>\<open>TypeError\<close>; of the null-body statuses 101, 103,
  204, 205 and 304 only the last three are in range). The validators and the success
  path call it with the literals 200, 400, 405 and 500, where it cannot throw
  (\<open>new_Response_literals\<close> below), so they use \<open>Response\<close> directly; the failure path
  passes on a status that comes from outside and goes through \<open>new_Response\<close>.
\<close>

definition new_Response :: "string \<Rightarrow> nat \<Rightarrow> js_error + response" where
  "new_Response b st =
     (if st < 200 \<or> 599 < st then Inl RangeError
      else if st = 204 \<or> st = 205 \<or> st = 304 then Inl TypeError
      else Inr (Response b st))"

text \<open>
  A value produced by \<^verbatim>\<open>JSON.parse\<close>. An object is the list of its own properties, each
  key once. A number is its value; the program only ever tests one against zero.
\<close>

datatype json =
    JNull
  | JBool bool
  | JNum real
  | JStr string
  | JArr "json list"
  | JObj "(string \<times> json) list"

text \<open>
  \<^verbatim>\<open>v.name\<close> for a value \<open>v\<close> that is neither \<^verbatim>\<open>null\<close> nor \<^verbatim>\<open>undefined\<close>, for the three
  names the program reads (\<^verbatim>\<open>post\<close>, \<^verbatim>\<open>current\<close>, \<^verbatim>\<open>url\<close>). No prototype defines any of
  them, so only an object that has the property itself yields a value; strings, numbers,
  booleans and arrays yield \<^verbatim>\<open>undefined\<close>.
\<close>

fun get_prop :: "json \<Rightarrow> string \<Rightarrow> json option" where
  "get_prop (JObj props) name = map_of props name"
| "get_prop _ name = None"

text \<open>\<^verbatim>\<open>v?.name\<close>: \<^verbatim>\<open>undefined\<close> when \<open>v\<close> is \<^verbatim>\<open>undefined\<close> or \<^verbatim>\<open>null\<close>, else \<^verbatim>\<open>v.name\<close>.\<close>

fun opt_chain :: "json option \<Rightarrow> string \<Rightarrow> json option" where
  "opt_chain None name = None"
| "opt_chain (Some JNull) name = None"
| "opt_chain (Some v) name = get_prop v name"

text \<open>
  JavaScript truthiness of a possibly undefined JSON value: \<^verbatim>\<open>undefined\<close>, \<^verbatim>\<open>null\<close>,
  \<^verbatim>\<open>false\<close>, zero and the empty string are falsy; everything else, every object and
  array included, is truthy.
\<close>

fun truthy :: "json option \<Rightarrow> bool" where
  "truthy None = False"
| "truthy (Some JNull) = False"
| "truthy (Some (JBool b)) = b"
| "truthy (Some (JNum x)) = (x \<noteq> 0)"
| "truthy (Some (JStr s)) = (s \<noteq> [])"
| "truthy (Some (JArr xs)) = True"
| "truthy (Some (JObj props)) = True"

text \<open>Truthiness of a possibly undefined string (\<^verbatim>\<open>!zoneID\<close>, \<^verbatim>\<open>!action\<close>, \<^verbatim>\<open>!apiToken\<close>).\<close>

fun truthy_str :: "string option \<Rightarrow> bool" where
  "truthy_str None = False"
| "truthy_str (Some s) = (s \<noteq> [])"

text \<open>A possibly undefined string inside a template literal: \<^verbatim>\<open>`${v}`\<close>.\<close>

fun template :: "string option \<Rightarrow> string" where
  "template None = ''undefined''"
| "template (Some s) = s"

subsection \<open>Requests, environment, platform\<close>

text \<open>
  The inbound request as the handler reads it:
  \<^item> \<open>req_method\<close> is \<^verbatim>\<open>request.method\<close>;
  \<^item> \<open>headers\<close> is \<^verbatim>\<open>request.headers.get\<close>, keyed by the lower-case header name
    (\<open>None\<close> is \<^verbatim>\<open>null\<close>);
  \<^item> \<open>pathname\<close> is \<^verbatim>\<open>new URL(request.url).pathname\<close>: \<^verbatim>\<open>request.url\<close> is an absolute
    URL by construction of the request, so this parse cannot fail, and nothing else of
    it is used;
  \<^item> \<open>json_result\<close> is what \<^verbatim>\<open>request.json()\<close> settles to: \<open>Inr\<close> of the parsed value, or
    \<open>Inl\<close> of the message of the error it rejects with.
\<close>

record request =
  req_method :: string
  headers :: "string \<rightharpoonup> string"
  pathname :: string
  json_result :: "string + json"

record env =
  CF_API_TOKEN :: "string option"

text \<open>The parts of a parsed \<^verbatim>\<open>URL\<close> object the handler reads.\<close>

record url =
  protocol :: string
  host :: string
  href :: string

text \<open>
  The second argument of \<^verbatim>\<open>fetch\<close>. \<open>init_body\<close> is the JSON document whose
  \<^verbatim>\<open>JSON.stringify\<close> serialisation is sent.
\<close>

record requestInit =
  init_method :: string
  init_headers :: "(string \<times> string) list"
  init_body :: json

text \<open>
  The platform functions whose code is not the worker's: \<open>URL\<close> is \<^verbatim>\<open>new URL(v)\<close> on a
  JavaScript value (\<open>None\<close>: it throws \<^verbatim>\<open>TypeError\<close>), \<open>fetch\<close> is the outbound call (\<open>Inl\<close>:
  the promise rejects).
\<close>

record platform =
  URL :: "json \<Rightarrow> url option"
  fetch :: "string \<Rightarrow> requestInit \<Rightarrow> js_error + response"

text \<open>What the handler does besides returning: console output and outbound calls, in order.\<close>

datatype event =
    console_error "string list"
  | console_log "string list"
  | fetch_call string requestInit

section \<open>String helpers\<close>

text \<open>\<^verbatim>\<open>s.includes(pat)\<close>: \<open>pat\<close> occurs in \<open>s\<close> as a contiguous substring.\<close>

fun includes_str :: "string \<Rightarrow> string \<Rightarrow> bool" where
  "includes_str [] pat = (pat = [])"
| "includes_str (c # cs) pat = (prefix pat (c # cs) \<or> includes_str cs pat)"

text \<open>\<^verbatim>\<open>s.split(sep)\<close> for a one-character separator: always at least one piece.\<close>

fun split_on :: "char \<Rightarrow> string \<Rightarrow> string list" where
  "split_on sep [] = [[]]"
| "split_on sep (c # cs) =
     (if c = sep then [] # split_on sep cs
      else (case split_on sep cs of
              [] \<Rightarrow> [[c]]
            | w # ws \<Rightarrow> (c # w) # ws))"

text \<open>\<^verbatim>\<open>xs[i]\<close> on an array: \<^verbatim>\<open>undefined\<close> out of range.\<close>

fun at_index :: "'a list \<Rightarrow> nat \<Rightarrow> 'a option" where
  "at_index [] i = None"
| "at_index (x # xs) 0 = Some x"
| "at_index (x # xs) (Suc i) = at_index xs i"

text \<open>\<^verbatim>\<open>xs.join(sep)\<close>.\<close>

fun join :: "string \<Rightarrow> string list \<Rightarrow> string" where
  "join sep [] = []"
| "join sep [x] = x"
| "join sep (x # y # ys) = x @ sep @ join sep (y # ys)"

text \<open>A number inside a template literal: its decimal digits.\<close>

definition digit :: "nat \<Rightarrow> char" where
  "digit d = char_of (48 + d)"

fun decimal :: "nat \<Rightarrow> string" where
  "decimal n = (if n < 10 then [digit n] else decimal (n div 10) @ [digit (n mod 10)])"

declare decimal.simps [simp del]

subsection \<open>The zone pattern\<close>

text \<open>
  \<^verbatim>\<open>/^[a-f0-9]{32}$/i\<close>. With the \<^verbatim>\<open>i\<close> flag a character matches the class when its
  canonical (upper-case) form is the canonical form of a character of the class. Only
  ASCII letters change under canonicalisation here: the regular expression never maps a
  non-ASCII character to an ASCII one.
\<close>

definition canonicalize :: "char \<Rightarrow> char" where
  "canonicalize c =
     (let n = (of_char c :: nat) in if 97 \<le> n \<and> n \<le> 122 then char_of (n - 32) else c)"

definition zone_class :: "char list" where
  "zone_class = ''abcdef0123456789''"

definition in_class_i :: "char list \<Rightarrow> char \<Rightarrow> bool" where
  "in_class_i cls c = (canonicalize c \<in> set (map canonicalize cls))"

text \<open>\<open>{n}\<close>: exactly \<open>n\<close> characters of the class, returning what is left of the input.\<close>

fun match_times :: "(char \<Rightarrow> bool) \<Rightarrow> nat \<Rightarrow> string \<Rightarrow> string option" where
  "match_times cls 0 s = Some s"
| "match_times cls (Suc n) [] = None"
| "match_times cls (Suc n) (c # cs) = (if cls c then match_times cls n cs else None)"

text \<open>\<^verbatim>\<open>^\<close> fixes the start of the match at the start of the input, \<^verbatim>\<open>$\<close> its end at the end.\<close>

definition zone_regex_test :: "string \<Rightarrow> bool" where
  "zone_regex_test s = (match_times (in_class_i zone_class) 32 s = Some [])"

section \<open>The validators\<close>

text \<open>Each returns \<open>Some\<close> error response, or \<open>None\<close> (\<^verbatim>\<open>null\<close>) when the input is valid.\<close>

definition validateRequest :: "request \<Rightarrow> response option" where
  "validateRequest request =
     (if req_method request \<noteq> ''POST''
      then Some (Response ERROR_METHOD_NOT_ALLOWED HTTP_METHOD_NOT_ALLOWED)
      else
        let contentType = (case headers request ''content-type'' of None \<Rightarrow> [] | Some v \<Rightarrow> v)
        in if \<not> includes_str contentType ''application/json''
           then Some (Response ERROR_INVALID_CONTENT_TYPE HTTP_BAD_REQUEST)
           else None)"

definition validateZoneID :: "string option \<Rightarrow> response option" where
  "validateZoneID zoneID =
     (if \<not> truthy_str zoneID
      then Some (Response ERROR_MISSING_ZONE_ID HTTP_BAD_REQUEST)
      else if \<not> zone_regex_test (template zoneID)
      then Some (Response ERROR_INVALID_ZONE_FORMAT HTTP_BAD_REQUEST)
      else None)"

definition validateAction :: "string option \<Rightarrow> response option" where
  "validateAction action =
     (if \<not> truthy_str action
      then Some (Response ERROR_MISSING_ACTION HTTP_BAD_REQUEST)
      else if action \<notin> set (map Some VALID_ACTIONS)
      then Some (Response ERROR_INVALID_ACTION HTTP_BAD_REQUEST)
      else None)"

text \<open>The next two also write to the console; the second component is what they wrote.\<close>

definition validateApiToken :: "string option \<Rightarrow> response option \<times> event list" where
  "validateApiToken apiToken =
     (if \<not> truthy_str apiToken
      then (Some (Response ERROR_MISSING_API_TOKEN HTTP_INTERNAL_ERROR),
            [console_error [''Missing CF_API_TOKEN in environment variables'']])
      else (None, []))"

text \<open>\<^verbatim>\<open>body?.post?.current?.url\<close>.\<close>

definition post_current_url :: "json \<Rightarrow> json option" where
  "post_current_url b = opt_chain (opt_chain (opt_chain (Some b) ''post'') ''current'') ''url''"

definition validateWebhookBody :: "json \<Rightarrow> response option \<times> event list" where
  "validateWebhookBody b =
     (if \<not> truthy (post_current_url b)
      then (Some (Response ERROR_INVALID_WEBHOOK HTTP_BAD_REQUEST),
            [console_error [''Invalid webhook payload: missing post.current.url'']])
      else (None, []))"

section \<open>Planning and dispatching the purge\<close>

definition getUrlsToPurge :: "string option \<Rightarrow> string \<Rightarrow> string \<Rightarrow> string list" where
  "getUrlsToPurge action rootURL postURL =
     (let urls = [rootURL @ ''/sitemap.xml'',
                  rootURL @ ''/sitemap-posts.xml'',
                  rootURL @ ''/sitemap-pages.xml'',
                  rootURL @ ''/sitemap-tags.xml'',
                  rootURL @ ''/sitemap-news/'',
                  rootURL @ ''/rss/'']
      in if action = Some ACTION_POST_PUBLISHED then urls @ [rootURL]
         else if action = Some ACTION_POST_UPDATED then urls @ [postURL]
         else urls)"

text \<open>The broom emoji U+1F9F9 that opens both purge log lines, as its UTF-8 bytes.\<close>

definition broom :: string where
  "broom = [char_of (240::nat), char_of (159::nat), char_of (167::nat), char_of (185::nat)]"

text \<open>
  \<^verbatim>\<open>handlePurgeFailure\<close> first awaits \<^verbatim>\<open>response.text()\<close>, then logs, then builds the
  response from the provider's status: a rejected read ends it before the log, a status
  the constructor refuses after it.
\<close>

definition handlePurgeFailure ::
    "response \<Rightarrow> string option \<Rightarrow> string list \<Rightarrow> (js_error + response) \<times> event list" where
  "handlePurgeFailure response zoneID urls =
     (case body response of
        Inl e \<Rightarrow> (Inl e, [])
      | Inr errorText \<Rightarrow>
          (new_Response (''Cache purge failed: '' @ statusText response) (status response),
           [console_error
              [broom @ '' Purge failed: '' @ decimal (status response) @ '' ''
                 @ statusText response @ '' - '' @ ''Zone: '' @ template zoneID
                 @ '' - URLs: '' @ join '', '' urls @ '' - Error: '' @ errorText]]))"

definition handlePurgeSuccess :: "string option \<Rightarrow> string list \<Rightarrow> response \<times> event list" where
  "handlePurgeSuccess zoneID urls =
     (Response ''OK'' HTTP_OK,
      [console_log
         [broom @ '' Successfully purged: Zone: '' @ template zoneID
            @ '' - URLs: '' @ join '', '' urls]])"

text \<open>
  \<^verbatim>\<open>purgeURL\<close> makes the one outbound call and returns what it settles to, with the
  record of the call.
\<close>

definition purgeURL ::
    "platform \<Rightarrow> string list \<Rightarrow> string option \<Rightarrow> string option
       \<Rightarrow> (js_error + response) \<times> event list" where
  "purgeURL P urlToPurge zoneID apiToken =
     (let requestInit =
            \<lparr>init_method = ''POST'',
             init_headers = [(''Content-Type'', ''application/json''),
                             (''Authorization'', ''Bearer '' @ template apiToken)],
             init_body = JObj [(''files'', JArr (map JStr urlToPurge))]\<rparr>;
          target = ''https://api.cloudflare.com/client/v4/zones/'' @ template zoneID
                     @ ''/purge_cache''
      in (fetch P target requestInit, [fetch_call target requestInit]))"

definition parseWebhookBody :: "request \<Rightarrow> string + json" where
  "parseWebhookBody request = json_result request"

section \<open>The handler\<close>

text \<open>
  \<^verbatim>\<open>const [zoneID, action] = url.pathname.split("/").filter(Boolean)\<close>: the first two
  non-empty pieces of the path, each \<^verbatim>\<open>undefined\<close> when there is none.
\<close>

definition path_segments :: "string \<Rightarrow> string list" where
  "path_segments p = filter (\<lambda>s. s \<noteq> []) (split_on (CHR ''/'') p)"

definition path_params :: "string \<Rightarrow> string option \<times> string option" where
  "path_params p = (let segs = path_segments p in (at_index segs 0, at_index segs 1))"

text \<open>\<^verbatim>\<open>`${postURL.protocol}//${postURL.host}`\<close>.\<close>

definition rootURL_of :: "url \<Rightarrow> string" where
  "rootURL_of postURL = protocol postURL @ ''//'' @ host postURL"

text \<open>
  The result is what the returned promise settles to (\<open>Inl\<close>: it rejects with an uncaught
  error) together with everything written and called on the way, in order. Line 218
  reads \<^verbatim>\<open>body.post.current.url\<close> again, without \<^verbatim>\<open>?.\<close>; after \<^verbatim>\<open>validateWebhookBody\<close>
  it is the same truthy value. Both of its failure modes raise \<^verbatim>\<open>TypeError\<close>: reading a
  property of \<^verbatim>\<open>undefined\<close>, and \<^verbatim>\<open>new URL\<close> refusing its argument.
\<close>

definition handleRequest ::
    "platform \<Rightarrow> request \<Rightarrow> env \<Rightarrow> (js_error + response) \<times> event list" where
  "handleRequest P request env =
     (case validateRequest request of
        Some requestError \<Rightarrow> (Inr requestError, [])
      | None \<Rightarrow>
     (case path_params (pathname request) of (zoneID, action) \<Rightarrow>
     (case validateZoneID zoneID of
        Some zoneError \<Rightarrow> (Inr zoneError, [])
      | None \<Rightarrow>
     (case validateAction action of
        Some actionError \<Rightarrow> (Inr actionError, [])
      | None \<Rightarrow>
     (case validateApiToken (CF_API_TOKEN env) of
        (Some tokenError, log1) \<Rightarrow> (Inr tokenError, log1)
      | (None, log1) \<Rightarrow>
     (case parseWebhookBody request of
        Inl message \<Rightarrow>
          (Inr (Response ERROR_INVALID_WEBHOOK HTTP_BAD_REQUEST),
           log1 @ [console_error [''Failed to parse webhook body:'', message]])
      | Inr b \<Rightarrow>
     (case validateWebhookBody b of
        (Some bodyError, log2) \<Rightarrow> (Inr bodyError, log1 @ log2)
      | (None, log2) \<Rightarrow>
     (case Option.bind (post_current_url b) (URL P) of
        None \<Rightarrow> (Inl TypeError, log1 @ log2)
      | Some postURL \<Rightarrow>
          let rootURL = rootURL_of postURL;
              urlsToPurge = getUrlsToPurge action rootURL (href postURL)
          in (case purgeURL P urlsToPurge zoneID (CF_API_TOKEN env) of
                (Inl e, log3) \<Rightarrow> (Inl e, log1 @ log2 @ log3)
              | (Inr response, log3) \<Rightarrow>
                  if ok response
                  then (case handlePurgeSuccess zoneID urlsToPurge of
                          (r, log4) \<Rightarrow> (Inr r, log1 @ log2 @ log3 @ log4))
                  else (case handlePurgeFailure response zoneID urlsToPurge of
                          (r, log4) \<Rightarrow> (r, log1 @ log2 @ log3 @ log4)))))))))))"

section \<open>Observing a run\<close>

text \<open>The outbound calls of a run, in order.\<close>

fun outbound_calls :: "event list \<Rightarrow> (string \<times> requestInit) list" where
  "outbound_calls [] = []"
| "outbound_calls (fetch_call target init # es) = (target, init) # outbound_calls es"
| "outbound_calls (e # es) = outbound_calls es"

text \<open>What the purge call of a run settled to, if the run made one.\<close>

definition purge_call :: "platform \<Rightarrow> request \<Rightarrow> env \<Rightarrow> (js_error + response) option" where
  "purge_call P request env =
     (case outbound_calls (snd (handleRequest P request env)) of
        [] \<Rightarrow> None
      | (target, init) # rest \<Rightarrow> Some (fetch P target init))"

text \<open>The JSON documents a run sent to the CDN, one for each outbound call.\<close>

definition purge_documents :: "platform \<Rightarrow> request \<Rightarrow> env \<Rightarrow> json list" where
  "purge_documents P request env =
     map (\<lambda>(target, init). init_body init)
       (outbound_calls (snd (handleRequest P request env)))"

text \<open>A request passes all validation when every validator of the handler returns \<^verbatim>\<open>null\<close>.\<close>

definition valid_request :: "request \<Rightarrow> env \<Rightarrow> bool" where
  "valid_request request env =
     (validateRequest request = None
      \<and> validateZoneID (fst (path_params (pathname request))) = None
      \<and> validateAction (snd (path_params (pathname request))) = None
      \<and> fst (validateApiToken (CF_API_TOKEN env)) = None
      \<and> (case parseWebhookBody request of
            Inl message \<Rightarrow> False
          | Inr b \<Rightarrow> fst (validateWebhookBody b) = None))"

text \<open>The action and the post URL of a request: what the purge plan is derived from.\<close>

definition action_of :: "request \<Rightarrow> string option" where
  "action_of request = snd (path_params (pathname request))"

definition post_url_of :: "request \<Rightarrow> json option" where
  "post_url_of request =
     (case parseWebhookBody request of Inl message \<Rightarrow> None | Inr b \<Rightarrow> post_current_url b)"

section \<open>The specification's wording\<close>

text \<open>
  A zone identifier as the specification describes it: 32 characters, each a
  hexadecimal digit in lower or upper case.
\<close>

definition hex_digit :: "char \<Rightarrow> bool" where
  "hex_digit c = (c \<in> set ''0123456789abcdefABCDEF'')"

definition is_zone_id :: "string \<Rightarrow> bool" where
  "is_zone_id z = (length z = 32 \<and> list_all hex_digit z)"

text \<open>A JSON document contains a path when following the keys through nested objects arrives at a value.\<close>

fun lookup_path :: "json \<Rightarrow> string list \<Rightarrow> json option" where
  "lookup_path v [] = Some v"
| "lookup_path (JObj props) (k # ks) =
     (case map_of props k of None \<Rightarrow> None | Some v \<Rightarrow> lookup_path v ks)"
| "lookup_path v (k # ks) = None"

text \<open>
  The nine checks of the specification's request validator, in its order: the outcome
  of the first check that fails (the response, and what is logged), or \<open>None\<close> when no
  check fails.
\<close>

definition validation_spec :: "request \<Rightarrow> env \<Rightarrow> (response \<times> event list) option" where
  "validation_spec request env =
     (let zone = at_index (path_segments (pathname request)) 0;
          action = at_index (path_segments (pathname request)) 1
      in
      \<comment> \<open>1. method must be POST\<close>
      if req_method request \<noteq> ''POST''
      then Some (Response ERROR_METHOD_NOT_ALLOWED 405, [])
      \<comment> \<open>2. the content type must contain application/json\<close>
      else if \<not> sublist ''application/json''
                  (case headers request ''content-type'' of None \<Rightarrow> [] | Some v \<Rightarrow> v)
      then Some (Response ERROR_INVALID_CONTENT_TYPE 400, [])
      \<comment> \<open>3. the zone segment must be non-empty\<close>
      else if zone = None \<or> zone = Some []
      then Some (Response ERROR_MISSING_ZONE_ID 400, [])
      \<comment> \<open>4. the zone must be 32 hexadecimal digits\<close>
      else if \<not> is_zone_id (the zone)
      then Some (Response ERROR_INVALID_ZONE_FORMAT 400, [])
      \<comment> \<open>5. the action segment must be non-empty\<close>
      else if action = None \<or> action = Some []
      then Some (Response ERROR_MISSING_ACTION 400, [])
      \<comment> \<open>6. the action must be postPublished or postUpdated\<close>
      else if the action \<noteq> ''postPublished'' \<and> the action \<noteq> ''postUpdated''
      then Some (Response ERROR_INVALID_ACTION 400, [])
      \<comment> \<open>7. an API token must be configured\<close>
      else if CF_API_TOKEN env = None \<or> CF_API_TOKEN env = Some []
      then Some (Response ERROR_MISSING_API_TOKEN 500,
                 [console_error [''Missing CF_API_TOKEN in environment variables'']])
      else (case json_result request of
              \<comment> \<open>8. the body must parse as JSON\<close>
              Inl message \<Rightarrow>
                Some (Response ERROR_INVALID_WEBHOOK 400,
                      [console_error [''Failed to parse webhook body:'', message]])
            | Inr b \<Rightarrow>
                \<comment> \<open>9. the parsed body must contain post.current.url\<close>
                if lookup_path b [''post'', ''current'', ''url''] = None
                then Some (Response ERROR_INVALID_WEBHOOK 400,
                           [console_error [''Invalid webhook payload: missing post.current.url'']])
                else None))"

section \<open>A test double and example inputs\<close>

text \<open>
  A stand-in for the platform, as a unit test of the worker would mock it: \<^verbatim>\<open>new URL\<close>
  knows the one post URL of the examples and throws on anything else, and \<^verbatim>\<open>fetch\<close>
  settles to a fixed answer.
\<close>

definition example_post_url :: url where
  "example_post_url =
     \<lparr>protocol = ''https:'', host = ''example.com'', href = ''https://example.com/my-post/''\<rparr>"

definition stub_URL :: "json \<Rightarrow> url option" where
  "stub_URL v = (if v = JStr ''https://example.com/my-post/'' then Some example_post_url else None)"

definition stub_platform :: "js_error + response \<Rightarrow> platform" where
  "stub_platform answer = \<lparr>URL = stub_URL, fetch = (\<lambda>target init. answer)\<rparr>"

definition forbidden :: response where
  "forbidden = \<lparr>ok = False, status = 403, statusText = ''Forbidden'', body = Inr ''Forbidden''\<rparr>"

definition purged :: response where
  "purged = \<lparr>ok = True, status = 200, statusText = ''OK'', body = Inr ''{\"success\":true}''\<rparr>"

definition example_zone :: string where
  "example_zone = ''0123456789abcdef0123456789ABCDEF''"

definition webhook_request :: "string \<Rightarrow> json \<Rightarrow> request" where
  "webhook_request path post_url =
     \<lparr>req_method = ''POST'',
      headers = [''content-type'' \<mapsto> ''application/json''],
      pathname = path,
      json_result = Inr (JObj [(''post'', JObj [(''current'', JObj [(''url'', post_url)])])])\<rparr>"

definition example_env :: env where
  "example_env = \<lparr>CF_API_TOKEN = Some ''secret-token''\<rparr>"

definition example_path :: string where
  "example_path = ''/0123456789abcdef0123456789ABCDEF/postPublished''"

text \<open>
  A second request for the same action and post URL: another zone, further headers and
  further body fields.
\<close>

definition other_request :: request where
  "other_request =
     \<lparr>req_method = ''POST'',
      headers = [''content-type'' \<mapsto> ''application/json; charset=utf-8'',
                 ''user-agent'' \<mapsto> ''Ghost''],
      pathname = ''/ffffffffffffffffffffffffffffffff/postPublished'',
      json_result = Inr (JObj [(''post'', JObj [(''current'',
                      JObj [(''title'', JStr ''My post''),
                            (''url'', JStr ''https://example.com/my-post/'')]),
                      (''previous'', JObj [])])])\<rparr>"

definition other_env :: env where
  "other_env = \<lparr>CF_API_TOKEN = Some ''another-token''\<rparr>"

section \<open>Facts about the helpers\<close>

lemma status_Response [simp]: "status (Response b st) = st"
  by (simp add: Response_def)

lemma body_Response [simp]: "body (Response b st) = Inr b"
  by (simp add: Response_def)

lemma new_Response_literals:
  "new_Response b HTTP_OK = Inr (Response b HTTP_OK)"
  "new_Response b HTTP_BAD_REQUEST = Inr (Response b HTTP_BAD_REQUEST)"
  "new_Response b HTTP_METHOD_NOT_ALLOWED = Inr (Response b HTTP_METHOD_NOT_ALLOWED)"
  "new_Response b HTTP_INTERNAL_ERROR = Inr (Response b HTTP_INTERNAL_ERROR)"
  by (simp_all add: new_Response_def HTTP_OK_def HTTP_BAD_REQUEST_def
        HTTP_METHOD_NOT_ALLOWED_def HTTP_INTERNAL_ERROR_def)

lemma includes_str_sublist: "includes_str s pat = sublist pat s"
  by (induction s) (simp_all add: sublist_Cons_right)

subsection \<open>The zone pattern accepts exactly the 32-digit hexadecimal strings\<close>

lemma match_times_iff:
  "match_times cls n s = Some [] \<longleftrightarrow> length s = n \<and> list_all cls s"
proof (induction cls n s rule: match_times.induct)
  case (1 cls s)
  then show ?case by auto
next
  case (2 cls n)
  then show ?case by simp
next
  case (3 cls n c cs)
  then show ?case by auto
qed

lemma char_eq_nat: "(c = d) = ((of_char c :: nat) = of_char d)"
  by simp

lemma of_char_canonicalize:
  "(of_char (canonicalize c) :: nat) =
     (if 97 \<le> (of_char c :: nat) \<and> (of_char c :: nat) \<le> 122
      then of_char c - 32 else of_char c)"
  by (auto simp: canonicalize_def Let_def)

lemma in_class_i_zone: "in_class_i zone_class c = hex_digit c"
proof -
  have cls: "map canonicalize zone_class = ''ABCDEF0123456789''"
    by (simp add: zone_class_def canonicalize_def char_of_eq_iff)
  have "in_class_i zone_class c = (canonicalize c \<in> set ''ABCDEF0123456789'')"
    by (simp only: in_class_i_def cls)
  also have "\<dots> = ((of_char (canonicalize c) :: nat)
      \<in> {65, 66, 67, 68, 69, 70, 48, 49, 50, 51, 52, 53, 54, 55, 56, 57})"
    by (simp add: char_eq_nat [of "canonicalize c"])
  also have "\<dots> = ((of_char c :: nat)
      \<in> {48, 49, 50, 51, 52, 53, 54, 55, 56, 57, 97, 98, 99, 100, 101, 102,
         65, 66, 67, 68, 69, 70})"
    unfolding of_char_canonicalize by (simp; arith)
  also have "\<dots> = hex_digit c"
    by (simp add: hex_digit_def char_eq_nat [of c])
  finally show ?thesis .
qed

lemma zone_regex_test_iff: "zone_regex_test z = is_zone_id z"
proof -
  have "in_class_i zone_class = hex_digit"
    by (rule ext) (rule in_class_i_zone)
  then show ?thesis
    by (simp add: zone_regex_test_def is_zone_id_def match_times_iff)
qed

subsection \<open>Splitting a path\<close>

lemma split_on_nonempty: "split_on sep s \<noteq> []"
  by (induction s) (auto split: list.splits)

lemma split_on_no_sep: "w \<in> set (split_on sep s) \<Longrightarrow> sep \<notin> set w"
proof (induction s arbitrary: w)
  case Nil
  then show ?case by simp
next
  case (Cons c cs)
  show ?case
  proof (cases "c = sep")
    case True
    with Cons show ?thesis by auto
  next
    case False
    obtain v vs where vs: "split_on sep cs = v # vs"
      using split_on_nonempty [of sep cs] by (cases "split_on sep cs") auto
    with Cons False show ?thesis by auto
  qed
qed

lemma split_on_sep_free:
  "sep \<notin> set w \<Longrightarrow> split_on sep (w @ sep # s) = w # split_on sep s"
  by (induction w) auto

lemma split_on_single: "sep \<notin> set w \<Longrightarrow> split_on sep w = [w]"
  by (induction w) auto

lemma path_segments_canonical:
  assumes "path_segments p = z # a # rest"
  shows "path_segments (''/'' @ z @ ''/'' @ a) = [z, a]"
proof -
  have "z \<in> set (path_segments p)" "a \<in> set (path_segments p)"
    using assms by simp_all
  then have z: "z \<noteq> []" "CHR ''/'' \<notin> set z" and a: "a \<noteq> []" "CHR ''/'' \<notin> set a"
    by (auto simp: path_segments_def dest: split_on_no_sep)
  have "split_on (CHR ''/'') (''/'' @ z @ ''/'' @ a) = [[], z, a]"
    using z a by (simp add: split_on_sep_free split_on_single)
  with z a show ?thesis by (simp add: path_segments_def)
qed

subsection \<open>The body lookup\<close>

lemma post_current_url_lookup:
  "post_current_url b = lookup_path b [''post'', ''current'', ''url'']"
  unfolding post_current_url_def
  apply (cases b; simp)
  subgoal for ps
    apply (cases "map_of ps ''post''"; simp)
    subgoal for v
      apply (cases v; simp)
      subgoal for qs
        apply (cases "map_of qs ''current''"; simp)
        subgoal for w by (cases w; simp split: option.splits)
        done
      done
    done
  done

section \<open>Facts about the handler\<close>

subsection \<open>The validators in the specification's vocabulary\<close>

lemma validateRequest_spec:
  "validateRequest request =
     (if req_method request \<noteq> ''POST'' then Some (Response ERROR_METHOD_NOT_ALLOWED 405)
      else if \<not> sublist ''application/json''
                  (case headers request ''content-type'' of None \<Rightarrow> [] | Some v \<Rightarrow> v)
      then Some (Response ERROR_INVALID_CONTENT_TYPE 400)
      else None)"
  by (simp add: validateRequest_def includes_str_sublist HTTP_METHOD_NOT_ALLOWED_def
        HTTP_BAD_REQUEST_def Let_def)

lemma validateZoneID_spec:
  "validateZoneID zone =
     (if zone = None \<or> zone = Some [] then Some (Response ERROR_MISSING_ZONE_ID 400)
      else if \<not> is_zone_id (the zone) then Some (Response ERROR_INVALID_ZONE_FORMAT 400)
      else None)"
  by (cases zone) (simp_all add: validateZoneID_def zone_regex_test_iff HTTP_BAD_REQUEST_def)

lemma validateAction_spec:
  "validateAction action =
     (if action = None \<or> action = Some [] then Some (Response ERROR_MISSING_ACTION 400)
      else if the action \<noteq> ''postPublished'' \<and> the action \<noteq> ''postUpdated''
      then Some (Response ERROR_INVALID_ACTION 400)
      else None)"
  by (cases action) (auto simp: validateAction_def VALID_ACTIONS_def ACTION_POST_PUBLISHED_def
        ACTION_POST_UPDATED_def HTTP_BAD_REQUEST_def)

lemma validateApiToken_spec:
  "validateApiToken t =
     (if t = None \<or> t = Some []
      then (Some (Response ERROR_MISSING_API_TOKEN 500),
            [console_error [''Missing CF_API_TOKEN in environment variables'']])
      else (None, []))"
  by (cases t) (simp_all add: validateApiToken_def HTTP_INTERNAL_ERROR_def)

lemma validateWebhookBody_lacking:
  "lookup_path b [''post'', ''current'', ''url''] = None \<Longrightarrow>
     validateWebhookBody b =
       (Some (Response ERROR_INVALID_WEBHOOK 400),
        [console_error [''Invalid webhook payload: missing post.current.url'']])"
  by (simp add: validateWebhookBody_def post_current_url_lookup HTTP_BAD_REQUEST_def)

lemma validateApiToken_None:
  "fst (validateApiToken t) = None \<Longrightarrow> validateApiToken t = (None, [])"
  by (simp add: validateApiToken_def split: if_splits)

lemma validateWebhookBody_None:
  "fst (validateWebhookBody b) = None \<Longrightarrow> validateWebhookBody b = (None, [])"
  by (simp add: validateWebhookBody_def split: if_splits)

subsection \<open>What the handler reads of a request\<close>

lemma handleRequest_reads:
  assumes "validateRequest r1 = validateRequest r2"
    and "path_params (pathname r1) = path_params (pathname r2)"
    and "parseWebhookBody r1 = parseWebhookBody r2"
  shows "handleRequest P r1 env = handleRequest P r2 env"
  unfolding handleRequest_def assms ..

subsection \<open>A request that passes validation\<close>

lemma handleRequest_valid:
  assumes "valid_request request env"
  shows "handleRequest P request env =
     (case Option.bind (post_url_of request) (URL P) of
        None \<Rightarrow> (Inl TypeError, [])
      | Some postURL \<Rightarrow>
          (let zoneID = fst (path_params (pathname request));
               urls = getUrlsToPurge (action_of request) (rootURL_of postURL) (href postURL);
               call = purgeURL P urls zoneID (CF_API_TOKEN env)
           in case fst call of
                Inl e \<Rightarrow> (Inl e, snd call)
              | Inr response \<Rightarrow>
                  if ok response
                  then (Inr (fst (handlePurgeSuccess zoneID urls)),
                        snd call @ snd (handlePurgeSuccess zoneID urls))
                  else (fst (handlePurgeFailure response zoneID urls),
                        snd call @ snd (handlePurgeFailure response zoneID urls))))"
proof -
  obtain zoneID action where pp: "path_params (pathname request) = (zoneID, action)"
    by (cases "path_params (pathname request)")
  from assms obtain b where
    b: "parseWebhookBody request = Inr b" "fst (validateWebhookBody b) = None"
    by (auto simp: valid_request_def split: sum.splits)
  from assms pp have v: "validateRequest request = None" "validateZoneID zoneID = None"
      "validateAction action = None" "validateApiToken (CF_API_TOKEN env) = (None, [])"
    by (simp_all add: valid_request_def validateApiToken_None)
  from b have w: "validateWebhookBody b = (None, [])"
    by (simp add: validateWebhookBody_None)
  show ?thesis
    by (simp add: handleRequest_def v w b pp post_url_of_def action_of_def Let_def
          split: option.splits prod.splits sum.splits)
qed

lemma outbound_calls_append:
  "outbound_calls (xs @ ys) = outbound_calls xs @ outbound_calls ys"
  by (induction xs rule: outbound_calls.induct) simp_all

lemma outbound_calls_purgeURL:
  "outbound_calls (snd (purgeURL P urls z t)) =
     [(''https://api.cloudflare.com/client/v4/zones/'' @ template z @ ''/purge_cache'',
       \<lparr>init_method = ''POST'',
        init_headers = [(''Content-Type'', ''application/json''),
                        (''Authorization'', ''Bearer '' @ template t)],
        init_body = JObj [(''files'', JArr (map JStr urls))]\<rparr>)]"
  by (simp add: purgeURL_def Let_def)

lemma fst_purgeURL:
  "fst (purgeURL P urls z t) =
     fetch P (''https://api.cloudflare.com/client/v4/zones/'' @ template z @ ''/purge_cache'')
       \<lparr>init_method = ''POST'',
        init_headers = [(''Content-Type'', ''application/json''),
                        (''Authorization'', ''Bearer '' @ template t)],
        init_body = JObj [(''files'', JArr (map JStr urls))]\<rparr>"
  by (simp add: purgeURL_def Let_def)

lemma outbound_calls_handlePurgeSuccess [simp]:
  "outbound_calls (snd (handlePurgeSuccess z urls)) = []"
  by (simp add: handlePurgeSuccess_def)

lemma outbound_calls_handlePurgeFailure [simp]:
  "outbound_calls (snd (handlePurgeFailure r z urls)) = []"
  by (simp add: handlePurgeFailure_def split: sum.splits)

lemma outbound_calls_valid:
  assumes "valid_request request env"
  shows "outbound_calls (snd (handleRequest P request env)) =
     (case Option.bind (post_url_of request) (URL P) of
        None \<Rightarrow> []
      | Some postURL \<Rightarrow>
          outbound_calls (snd (purgeURL P
            (getUrlsToPurge (action_of request) (rootURL_of postURL) (href postURL))
            (fst (path_params (pathname request))) (CF_API_TOKEN env))))"
  by (simp add: handleRequest_valid [OF assms] Let_def outbound_calls_append
        split: option.splits sum.splits)

lemma purge_call_valid:
  assumes "valid_request request env"
  shows "purge_call P request env =
     (case Option.bind (post_url_of request) (URL P) of
        None \<Rightarrow> None
      | Some postURL \<Rightarrow>
          Some (fst (purgeURL P
            (getUrlsToPurge (action_of request) (rootURL_of postURL) (href postURL))
            (fst (path_params (pathname request))) (CF_API_TOKEN env))))"
  by (simp add: purge_call_def outbound_calls_valid [OF assms] outbound_calls_purgeURL
        fst_purgeURL split: option.splits)

lemma purge_documents_valid:
  assumes "valid_request request env"
  shows "purge_documents P request env =
     (case Option.bind (post_url_of request) (URL P) of
        None \<Rightarrow> []
      | Some postURL \<Rightarrow>
          [JObj [(''files'', JArr (map JStr
             (getUrlsToPurge (action_of request) (rootURL_of postURL) (href postURL))))]])"
  by (simp add: purge_documents_def outbound_calls_valid [OF assms] outbound_calls_purgeURL
        split: option.splits)

text \<open>
  When the post URL of a valid request parses, the run makes exactly one outbound call,
  of this shape; a request that fails validation makes none; no run makes two.
\<close>

lemma one_purge_call:
  assumes "valid_request request env"
    and "post_url_of request = Some v" and "URL P v = Some postURL"
  shows "outbound_calls (snd (handleRequest P request env)) =
     [(''https://api.cloudflare.com/client/v4/zones/''
         @ template (fst (path_params (pathname request))) @ ''/purge_cache'',
       \<lparr>init_method = ''POST'',
        init_headers = [(''Content-Type'', ''application/json''),
                        (''Authorization'', ''Bearer '' @ template (CF_API_TOKEN env))],
        init_body = JObj [(''files'', JArr (map JStr
          (getUrlsToPurge (action_of request) (rootURL_of postURL) (href postURL))))]\<rparr>)]"
  by (simp add: outbound_calls_valid [OF assms(1)] assms(2,3) outbound_calls_purgeURL)

lemma no_call_unless_valid:
  "\<not> valid_request request env \<Longrightarrow> outbound_calls (snd (handleRequest P request env)) = []"
  by (auto simp: valid_request_def handleRequest_def validateApiToken_def validateWebhookBody_def
        split: option.splits prod.splits sum.splits if_splits)

lemma at_most_one_call: "length (outbound_calls (snd (handleRequest P request env))) \<le> 1"
proof (cases "valid_request request env")
  case True
  then show ?thesis
    by (simp add: outbound_calls_valid outbound_calls_purgeURL split: option.splits)
next
  case False
  then show ?thesis by (simp add: no_call_unless_valid)
qed

subsection \<open>The example inputs\<close>

lemma is_zone_id_example: "is_zone_id example_zone"
  by (simp add: is_zone_id_def example_zone_def hex_digit_def)

lemma path_segments_example:
  "path_segments example_path = [example_zone, ''postPublished'']"
  by (simp add: path_segments_def example_path_def example_zone_def)

lemma path_params_example:
  "path_params example_path = (Some example_zone, Some ''postPublished'')"
  by (simp add: path_params_def path_segments_example)

lemma webhook_request_fields [simp]:
  "req_method (webhook_request p v) = ''POST''"
  "pathname (webhook_request p v) = p"
  "json_result (webhook_request p v) =
     Inr (JObj [(''post'', JObj [(''current'', JObj [(''url'', v)])])])"
  by (simp_all add: webhook_request_def)

lemma webhook_request_pathname [simp]:
  "(webhook_request p v)\<lparr>pathname := q\<rparr> = webhook_request q v"
  by (simp add: webhook_request_def)

lemma validateRequest_webhook [simp]: "validateRequest (webhook_request p v) = None"
  by (simp add: validateRequest_def webhook_request_def)

lemma validateZoneID_example: "validateZoneID (Some example_zone) = None"
  using is_zone_id_example
  by (simp add: validateZoneID_def zone_regex_test_iff is_zone_id_def example_zone_def)

lemma post_url_of_webhook [simp]: "post_url_of (webhook_request p v) = Some v"
  by (simp add: post_url_of_def parseWebhookBody_def post_current_url_def)

lemma valid_request_example:
  "truthy (Some v) \<Longrightarrow> valid_request (webhook_request example_path v) example_env"
  by (simp add: valid_request_def path_params_example
      validateZoneID_example validateAction_def VALID_ACTIONS_def ACTION_POST_PUBLISHED_def
      ACTION_POST_UPDATED_def validateApiToken_def example_env_def parseWebhookBody_def
      validateWebhookBody_def post_current_url_def)

text \<open>The example request end to end: the document it sends is the plan for its action.\<close>

lemma example_purge_documents:
  "purge_documents (stub_platform answer)
     (webhook_request example_path (JStr ''https://example.com/my-post/'')) example_env
   = [JObj [(''files'', JArr (map JStr
        (getUrlsToPurge (Some ''postPublished'') (rootURL_of example_post_url)
           (href example_post_url))))]]"
proof -
  have v: "valid_request
      (webhook_request example_path (JStr ''https://example.com/my-post/'')) example_env"
    by (rule valid_request_example) simp
  show ?thesis
    by (simp add: purge_documents_valid [OF v] stub_platform_def stub_URL_def action_of_def
          path_params_example)
qed

lemma valid_other_request: "valid_request other_request other_env"
  by (simp add: valid_request_def other_request_def other_env_def validateRequest_def
        path_params_def path_segments_def validateZoneID_def zone_regex_test_iff is_zone_id_def
        hex_digit_def validateAction_def VALID_ACTIONS_def ACTION_POST_PUBLISHED_def
        ACTION_POST_UPDATED_def validateApiToken_def parseWebhookBody_def
        validateWebhookBody_def post_current_url_def)

section \<open>The claims\<close>

subsection \<open>C1: a failed purge\<close>

text \<open>
  Claim C1, as the code has it. For every request that passes all validation and whose
  CDN purge call returns a non-ok response, with a readable body and a status that a
  response with a body may carry (200 to 599, and none of 204, 205, 304), the handler
  responds with the provider's status code and with the body \<^verbatim>\<open>Cache purge failed: \<close>
  followed by the provider's status text.
\<close>

theorem purge_failure_response:
  assumes "valid_request request env"
    and "purge_call P request env = Some (Inr response)"
    and "\<not> ok response"
    and "body response = Inr errorText"
    and "200 \<le> status response" and "status response \<le> 599"
    and "status response \<notin> {204, 205, 304}"
  shows "fst (handleRequest P request env) =
           Inr (Response (''Cache purge failed: '' @ statusText response) (status response))"
  using assms(2-)
  by (auto simp: purge_call_valid [OF assms(1)] handleRequest_valid [OF assms(1)] Let_def
        handlePurgeFailure_def new_Response_def split: option.splits)

text \<open>
  Claim C1, witness: the provider answers 403 Forbidden to the example request; the
  handler responds 403 with the body \<^verbatim>\<open>Cache purge failed: Forbidden\<close>.
\<close>

theorem purge_failure_response_witness:
  "fst (handleRequest (stub_platform (Inr forbidden))
         (webhook_request example_path (JStr ''https://example.com/my-post/'')) example_env)
     = Inr (Response ''Cache purge failed: Forbidden'' 403)"
proof -
  have v: "valid_request
      (webhook_request example_path (JStr ''https://example.com/my-post/'')) example_env"
    by (rule valid_request_example) simp
  have c: "purge_call (stub_platform (Inr forbidden))
         (webhook_request example_path (JStr ''https://example.com/my-post/'')) example_env
       = Some (Inr forbidden)"
    by (simp add: purge_call_valid [OF v] stub_platform_def stub_URL_def purgeURL_def Let_def)
  show ?thesis
    using purge_failure_response [OF v c, of "''Forbidden''"]
    by (simp add: forbidden_def)
qed

text \<open>
  Claim C1 as stated fails: for the same run the claim expects the body \<^verbatim>\<open>Forbidden\<close>,
  the provider's status text alone, and the handler's body is another string.
\<close>

theorem purge_failure_body_counterexample:
  "valid_request
     (webhook_request example_path (JStr ''https://example.com/my-post/'')) example_env
   \<and> purge_call (stub_platform (Inr forbidden))
         (webhook_request example_path (JStr ''https://example.com/my-post/'')) example_env
       = Some (Inr forbidden)
   \<and> \<not> ok forbidden \<and> status forbidden = 403 \<and> statusText forbidden = ''Forbidden''
   \<and> fst (handleRequest (stub_platform (Inr forbidden))
         (webhook_request example_path (JStr ''https://example.com/my-post/'')) example_env)
       \<noteq> Inr (Response ''Forbidden'' 403)
   \<and> fst (handleRequest (stub_platform (Inr forbidden))
         (webhook_request example_path (JStr ''https://example.com/my-post/'')) example_env)
       = Inr (Response ''Cache purge failed: Forbidden'' 403)"
proof -
  have v: "valid_request
      (webhook_request example_path (JStr ''https://example.com/my-post/'')) example_env"
    by (rule valid_request_example) simp
  show ?thesis
    by (simp add: v purge_call_valid [OF v] handleRequest_valid [OF v] stub_platform_def
          stub_URL_def Let_def purgeURL_def forbidden_def handlePurgeFailure_def
          new_Response_def Response_def)
qed

subsection \<open>C2: the order of the checks\<close>

text \<open>
  Claim C2. Whenever one of the nine checks of the specification fails, taken in the
  specification's order, the handler returns the response of the first failing check and
  has written only what that check writes: no later check has run, and no call was made.
\<close>

theorem validation_order:
  assumes "validation_spec request env = Some (r, out)"
  shows "handleRequest P request env = (Inr r, out)"
proof -
  have pp: "path_params (pathname request) =
      (at_index (path_segments (pathname request)) 0,
       at_index (path_segments (pathname request)) 1)"
    by (simp add: path_params_def Let_def)
  show ?thesis
  proof (cases "validateRequest request")
    case (Some e)
    with assms show ?thesis
      by (auto simp: validation_spec_def handleRequest_def validateRequest_spec Let_def
            split: if_splits)
  next
    case None
    then have m: "req_method request = ''POST''"
      "sublist ''application/json''
         (case headers request ''content-type'' of None \<Rightarrow> [] | Some v \<Rightarrow> v)"
      by (auto simp: validateRequest_spec split: if_splits)
    show ?thesis
    proof (cases "validateZoneID (at_index (path_segments (pathname request)) 0)")
      case (Some e)
      with assms None m show ?thesis
        by (auto simp: validation_spec_def handleRequest_def pp validateZoneID_spec Let_def
              split: if_splits)
    next
      case zn: None
      show ?thesis
      proof (cases "validateAction (at_index (path_segments (pathname request)) 1)")
        case (Some e)
        with assms None m zn show ?thesis
          by (auto simp: validation_spec_def handleRequest_def pp validateZoneID_spec
                validateAction_spec Let_def split: if_splits)
      next
        case an: None
        from assms None m zn an show ?thesis
          by (auto simp: validation_spec_def handleRequest_def pp validateZoneID_spec
                validateAction_spec validateApiToken_spec validateWebhookBody_lacking
                parseWebhookBody_def HTTP_BAD_REQUEST_def Let_def
                split: if_splits sum.splits)
      qed
    qed
  qed
qed

text \<open>
  Claim C2, witness: a request with no API token configured and a body that is not JSON
  fails checks 7 and 8; the handler answers with check 7's response, 500, and has logged
  check 7's line only.
\<close>

theorem validation_order_witness:
  "handleRequest (stub_platform (Inr purged))
       ((webhook_request example_path JNull)\<lparr>json_result := Inl ''Unexpected end of JSON input''\<rparr>)
       \<lparr>CF_API_TOKEN = None\<rparr>
     = (Inr (Response ERROR_MISSING_API_TOKEN 500),
        [console_error [''Missing CF_API_TOKEN in environment variables'']])"
proof -
  have s: "validation_spec
       ((webhook_request example_path JNull)\<lparr>json_result := Inl ''Unexpected end of JSON input''\<rparr>)
       \<lparr>CF_API_TOKEN = None\<rparr>
     = Some (Response ERROR_MISSING_API_TOKEN 500,
             [console_error [''Missing CF_API_TOKEN in environment variables'']])"
    using is_zone_id_example
    by (simp add: validation_spec_def path_segments_example webhook_request_def Let_def
          example_zone_def)
  show ?thesis
    using validation_order [OF s] by simp
qed

subsection \<open>C3: the purge plan of the example post\<close>

text \<open>
  Claim C3. For the post URL \<^verbatim>\<open>https://example.com/my-post/\<close> (protocol \<^verbatim>\<open>https:\<close>, host
  \<^verbatim>\<open>example.com\<close>), \<open>getUrlsToPurge\<close> applied to the root URL built from protocol and
  host returns the six site-wide URLs followed by the root for \<^verbatim>\<open>postPublished\<close>, and
  followed by the post URL for \<^verbatim>\<open>postUpdated\<close>.
\<close>

theorem getUrlsToPurge_example:
  "getUrlsToPurge (Some ''postPublished'') (rootURL_of example_post_url) (href example_post_url) =
     [''https://example.com/sitemap.xml'', ''https://example.com/sitemap-posts.xml'',
      ''https://example.com/sitemap-pages.xml'', ''https://example.com/sitemap-tags.xml'',
      ''https://example.com/sitemap-news/'', ''https://example.com/rss/'',
      ''https://example.com'']
   \<and> getUrlsToPurge (Some ''postUpdated'') (rootURL_of example_post_url) (href example_post_url) =
     [''https://example.com/sitemap.xml'', ''https://example.com/sitemap-posts.xml'',
      ''https://example.com/sitemap-pages.xml'', ''https://example.com/sitemap-tags.xml'',
      ''https://example.com/sitemap-news/'', ''https://example.com/rss/'',
      ''https://example.com/my-post/'']"
  by (simp add: getUrlsToPurge_def rootURL_of_def example_post_url_def
        ACTION_POST_PUBLISHED_def ACTION_POST_UPDATED_def)

subsection \<open>C4: the zone format\<close>

text \<open>
  Claim C4. The zone pattern matches exactly the strings of 32 hexadecimal digits in
  either case. For every zone string that does not match it, the empty string included,
  \<open>validateZoneID\<close> returns a response of status 400; for every string of 32 hexadecimal
  digits it returns no error.
\<close>

theorem zone_format_check:
  "(zone_regex_test z \<longleftrightarrow> is_zone_id z)
   \<and> (\<not> zone_regex_test z \<longrightarrow> map_option status (validateZoneID (Some z)) = Some 400)
   \<and> (is_zone_id z \<longrightarrow> validateZoneID (Some z) = None)"
  by (auto simp: validateZoneID_def zone_regex_test_iff HTTP_BAD_REQUEST_def is_zone_id_def)

text \<open>
  Claim C4, witness: \<^verbatim>\<open>not-a-zone\<close> and the empty string do not match and get 400; the
  example zone, 32 digits of mixed case, passes.
\<close>

theorem zone_format_check_witness:
  "\<not> zone_regex_test ''not-a-zone''
   \<and> map_option status (validateZoneID (Some ''not-a-zone'')) = Some 400
   \<and> \<not> zone_regex_test []
   \<and> map_option status (validateZoneID (Some [])) = Some 400
   \<and> is_zone_id example_zone \<and> validateZoneID (Some example_zone) = None"
proof -
  have n: "\<not> is_zone_id ''not-a-zone''" "\<not> is_zone_id []"
    by (simp_all add: is_zone_id_def)
  show ?thesis
    using zone_format_check [of "''not-a-zone''"] zone_format_check [of "[]"]
      zone_format_check [of example_zone] is_zone_id_example n
    by simp
qed

subsection \<open>C5: the method\<close>

text \<open>
  Claim C5. For every request whose method is not POST the handler responds 405, whatever
  the path, the headers, the body, the environment and the platform are; nothing is
  logged and no call is made.
\<close>

theorem non_POST_405:
  assumes "req_method request \<noteq> ''POST''"
  shows "handleRequest P request env = (Inr (Response ERROR_METHOD_NOT_ALLOWED 405), [])"
  using assms
  by (simp add: handleRequest_def validateRequest_def HTTP_METHOD_NOT_ALLOWED_def)

text \<open>Claim C5, witness: the example request, otherwise valid, sent with GET.\<close>

theorem non_POST_405_witness:
  "handleRequest (stub_platform (Inr purged))
     ((webhook_request example_path (JStr ''https://example.com/my-post/''))\<lparr>req_method := ''GET''\<rparr>)
     example_env
   = (Inr (Response ERROR_METHOD_NOT_ALLOWED 405), [])"
  using non_POST_405 [of
      "(webhook_request example_path (JStr ''https://example.com/my-post/''))\<lparr>req_method := ''GET''\<rparr>"
      "stub_platform (Inr purged)" example_env]
  by simp

subsection \<open>C6: a successful purge\<close>

text \<open>
  Claim C6. For every request that passes all validation and whose CDN purge call
  returns an ok response, the handler responds with status 200 and body \<^verbatim>\<open>OK\<close>.
\<close>

theorem purge_success_response:
  assumes "valid_request request env"
    and "purge_call P request env = Some (Inr response)"
    and "ok response"
  shows "fst (handleRequest P request env) = Inr (Response ''OK'' 200)"
  using assms(2,3)
  by (auto simp: purge_call_valid [OF assms(1)] handleRequest_valid [OF assms(1)] Let_def
        handlePurgeSuccess_def HTTP_OK_def split: option.splits)

text \<open>Claim C6, witness: the provider answers the example request with an ok response.\<close>

theorem purge_success_response_witness:
  "fst (handleRequest (stub_platform (Inr purged))
         (webhook_request example_path (JStr ''https://example.com/my-post/'')) example_env)
     = Inr (Response ''OK'' 200)"
proof -
  have v: "valid_request
      (webhook_request example_path (JStr ''https://example.com/my-post/'')) example_env"
    by (rule valid_request_example) simp
  have c: "purge_call (stub_platform (Inr purged))
         (webhook_request example_path (JStr ''https://example.com/my-post/'')) example_env
       = Some (Inr purged)"
    by (simp add: purge_call_valid [OF v] stub_platform_def stub_URL_def purgeURL_def Let_def)
  show ?thesis
    using purge_success_response [OF v c] by (simp add: purged_def)
qed

subsection \<open>C7: the purge plan depends on the action and the post URL only\<close>

text \<open>
  Claim C7. Two requests that pass validation and agree on the action and on the post
  URL send the same list of URLs to the CDN, whatever their zones, credentials, headers
  and other body fields are.
\<close>

theorem purge_plan_deterministic:
  assumes "valid_request r1 e1" and "valid_request r2 e2"
    and "action_of r1 = action_of r2" and "post_url_of r1 = post_url_of r2"
  shows "purge_documents P r1 e1 = purge_documents P r2 e2"
  by (simp add: purge_documents_valid [OF assms(1)] purge_documents_valid [OF assms(2)]
        assms(3,4) split: option.splits)

text \<open>
  Claim C7, witness: the example request and a request to another zone, with another
  token, further headers and further body fields, send the same document, and do send one.
\<close>

theorem purge_plan_deterministic_witness:
  "purge_documents (stub_platform (Inr purged))
       (webhook_request example_path (JStr ''https://example.com/my-post/'')) example_env
   = purge_documents (stub_platform (Inr purged)) other_request other_env
   \<and> purge_documents (stub_platform (Inr purged)) other_request other_env \<noteq> []"
proof -
  have v: "valid_request
      (webhook_request example_path (JStr ''https://example.com/my-post/'')) example_env"
    by (rule valid_request_example) simp
  have a: "action_of (webhook_request example_path (JStr ''https://example.com/my-post/''))
             = action_of other_request"
  proof -
    have "action_of other_request = Some ''postPublished''"
      by (simp add: action_of_def other_request_def path_params_def path_segments_def)
    then show ?thesis
      by (simp add: action_of_def path_params_example)
  qed
  have u: "post_url_of (webhook_request example_path (JStr ''https://example.com/my-post/''))
             = post_url_of other_request"
    by (simp add: post_url_of_def parseWebhookBody_def other_request_def post_current_url_def)
  have n: "purge_documents (stub_platform (Inr purged)) other_request other_env \<noteq> []"
    by (simp add: purge_documents_valid [OF valid_other_request] u [symmetric]
          stub_platform_def stub_URL_def)
  show ?thesis
    using purge_plan_deterministic [OF v valid_other_request a u,
        of "stub_platform (Inr purged)"] n
    by simp
qed

subsection \<open>C8: one outbound call\<close>

text \<open>
  Claim C8 fails on this input: the request passes all validation, its post URL is the
  string \<^verbatim>\<open>not a url\<close>, and the run makes no outbound call at all.
\<close>

theorem unparseable_post_url_no_call:
  "valid_request (webhook_request example_path (JStr ''not a url'')) example_env
   \<and> outbound_calls (snd (handleRequest (stub_platform (Inr purged))
        (webhook_request example_path (JStr ''not a url'')) example_env)) = []"
proof -
  have v: "valid_request (webhook_request example_path (JStr ''not a url'')) example_env"
    by (rule valid_request_example) simp
  show ?thesis
    by (simp add: v outbound_calls_valid [OF v] stub_platform_def stub_URL_def)
qed

subsection \<open>C9: further path segments\<close>

text \<open>
  Claim C9. When a path has more than two non-empty segments, the zone and the action
  are the first two of them, and the handler does exactly what it does for the path
  made of these two alone.
\<close>

theorem extra_segments_ignored:
  assumes "path_segments p = z # a # rest"
  shows "path_params p = (Some z, Some a)
         \<and> handleRequest P (request\<lparr>pathname := p\<rparr>) env =
           handleRequest P (request\<lparr>pathname := ''/'' @ z @ ''/'' @ a\<rparr>) env"
proof
  show "path_params p = (Some z, Some a)"
    using assms by (simp add: path_params_def)
  show "handleRequest P (request\<lparr>pathname := p\<rparr>) env =
        handleRequest P (request\<lparr>pathname := ''/'' @ z @ ''/'' @ a\<rparr>) env"
  proof (rule handleRequest_reads)
    show "path_params (pathname (request\<lparr>pathname := p\<rparr>)) =
          path_params (pathname (request\<lparr>pathname := ''/'' @ z @ ''/'' @ a\<rparr>))"
      using assms path_segments_canonical [OF assms]
      by (simp add: path_params_def Let_def del: append.simps)
  qed (simp_all add: validateRequest_def parseWebhookBody_def)
qed

text \<open>
  Claim C9, witness: a path with a doubled slash and two further segments is handled as
  the example path.
\<close>

theorem extra_segments_ignored_witness:
  "path_params ''//0123456789abcdef0123456789ABCDEF/postPublished/extra//segments''
     = (Some example_zone, Some ''postPublished'')
   \<and> handleRequest (stub_platform (Inr purged))
        (webhook_request ''//0123456789abcdef0123456789ABCDEF/postPublished/extra//segments''
           (JStr ''https://example.com/my-post/'')) example_env
     = handleRequest (stub_platform (Inr purged))
        (webhook_request example_path (JStr ''https://example.com/my-post/'')) example_env"
proof -
  have s: "path_segments ''//0123456789abcdef0123456789ABCDEF/postPublished/extra//segments''
     = example_zone # ''postPublished'' # [''extra'', ''segments'']"
    by (simp add: path_segments_def example_zone_def)
  show ?thesis
    using extra_segments_ignored [OF s, of "stub_platform (Inr purged)"
        "webhook_request example_path (JStr ''https://example.com/my-post/'')" example_env]
    by (simp add: example_path_def example_zone_def)
qed

subsection \<open>C10: a post URL that does not parse\<close>

text \<open>
  Claim C10. A request that passes every validation step and whose post URL is a string
  that \<^verbatim>\<open>new URL\<close> refuses makes the handler end with an uncaught \<^verbatim>\<open>TypeError\<close>: no response
  is returned, 400 or other, nothing is logged and no call is made. Such a string is
  non-empty, since validation has accepted it.
\<close>

theorem unparseable_post_url_throws:
  assumes "valid_request request env"
    and "post_url_of request = Some (JStr s)"
    and "URL P (JStr s) = None"
  shows "s \<noteq> [] \<and> handleRequest P request env = (Inl TypeError, [])"
proof -
  from assms(1,2) have "truthy (Some (JStr s))"
    by (auto simp: valid_request_def post_url_of_def validateWebhookBody_def
          split: sum.splits if_splits)
  then show ?thesis
    by (simp add: handleRequest_valid [OF assms(1)] assms(2,3))
qed

text \<open>Claim C10, witness: the example request with the post URL \<^verbatim>\<open>not a url\<close>.\<close>

theorem unparseable_post_url_throws_witness:
  "valid_request (webhook_request example_path (JStr ''not a url'')) example_env
   \<and> post_url_of (webhook_request example_path (JStr ''not a url'')) = Some (JStr ''not a url'')
   \<and> handleRequest (stub_platform (Inr purged))
        (webhook_request example_path (JStr ''not a url'')) example_env = (Inl TypeError, [])"
proof -
  have v: "valid_request (webhook_request example_path (JStr ''not a url'')) example_env"
    by (rule valid_request_example) simp
  have u: "URL (stub_platform (Inr purged)) (JStr ''not a url'') = None"
    by (simp add: stub_platform_def stub_URL_def)
  show ?thesis
    using unparseable_post_url_throws [OF v _ u] v by simp
qed

end
